theory Spec2Isabelle
  imports Main
begin

section \<open>Entities\<close>

text \<open>
  The entity classes wrap a \<open>props\<close> object. Only their field names are visible from the
  use case and its tests: \<open>User\<close> has \<open>id\<close>, \<open>email\<close>, \<open>password\<close>; \<open>Webinar\<close> has \<open>id\<close>,
  \<open>organizerId\<close>, \<open>title\<close>, \<open>startDate\<close>, \<open>endDate\<close>, \<open>seats\<close>; \<open>Participation\<close> has \<open>userId\<close>
  and \<open>webinarId\<close>. A \<open>Date\<close> is its time value, an integer number of milliseconds. The
  contact address of a user may be absent, so \<open>email\<close> is optional.
\<close>

record user =
  user_id :: string
  email :: "string option"
  password :: string

record webinar =
  webinar_id :: string
  organizerId :: string
  title :: string
  startDate :: int
  endDate :: int
  seats :: int

record participation =
  userId :: string
  webinarId :: string

record mail =
  to :: string
  subject :: string
  body :: string

record response =
  success :: bool
  message :: string

section \<open>Exceptions\<close>

text \<open>
  \<open>Error msg\<close> is a plain JavaScript \<open>Error\<close> with its message; the five named classes are
  the exceptions the use case constructs. \<open>MailerFailure msg\<close> stands for whatever a mailer's
  \<open>send\<close> throws: it is raised by the collaborator, never by the use case, and is kept
  apart from the exceptions the use case constructs itself.
\<close>

datatype exn =
    Error string
  | UserIsAlreadyRegisteredException
  | WebinarDatesTooSoonException
  | WebinarTooManySeatsException
  | WebinarNotEnoughSeatsException
  | EmailNotFoundException
  | MailerFailure string

section \<open>Webinar predicates\<close>

text \<open>Modelled from the spec: \<open>Webinar.isTooSoon\<close> (the webinar entity is not among the
  sources). Section 4.1: true when the gap between \<open>now\<close> and the event's start time is less
  than a fixed minimum lead time of 3 days; a gap of exactly 3 days is not too soon. The gap
  is the signed difference start minus now, in milliseconds ("starts in under 3 days from
  now").\<close>

definition isTooSoon :: "webinar \<Rightarrow> int \<Rightarrow> bool" where
  "isTooSoon w now = (startDate w - now < 3 * 24 * 60 * 60 * 1000)"

text \<open>Modelled from the spec: \<open>Webinar.hasTooManySeats\<close> (the webinar entity is not among
  the sources). Section 4.1: true when seat capacity exceeds 1000.\<close>

definition hasTooManySeats :: "webinar \<Rightarrow> bool" where
  "hasTooManySeats w = (seats w > 1000)"

text \<open>Modelled from the spec: \<open>Webinar.hasNotEnoughSeats\<close> (the webinar entity is not among
  the sources). Section 4.1: true when seat capacity is less than 1.\<close>

definition hasNotEnoughSeats :: "webinar \<Rightarrow> bool" where
  "hasNotEnoughSeats w = (seats w < 1)"

section \<open>Collaborators\<close>

text \<open>
  The repositories are the in-memory ones of the repository: each holds an array.
  \<open>FakeParticipationRepository.findByWebinarId\<close> filters the array, \<open>save\<close> pushes;
  \<open>FakeUserRepository.findById\<close> returns the first user with the id, or null;
  \<open>InMemoryWebinarRepository.findById\<close> returns the first webinar with the id, or throws
  \<open>Error('Webinar not found.')\<close>.
\<close>

definition findByWebinarId :: "string \<Rightarrow> participation list \<Rightarrow> participation list" where
  "findByWebinarId wid ps = filter (\<lambda>p. webinarId p = wid) ps"

definition save :: "participation \<Rightarrow> participation list \<Rightarrow> participation list" where
  "save p ps = ps @ [p]"

definition userRepository_findById :: "string \<Rightarrow> user list \<Rightarrow> user option" where
  "userRepository_findById uid us = find (\<lambda>u. user_id u = uid) us"

definition webinarRepository_findById :: "string \<Rightarrow> webinar list \<Rightarrow> exn + webinar" where
  "webinarRepository_findById wid db =
     (case find (\<lambda>w. webinar_id w = wid) db of
        None \<Rightarrow> Inl (Error ''Webinar not found.'')
      | Some w \<Rightarrow> Inr w)"

text \<open>
  The mailer is a port: \<open>send\<close> takes the mail and the mailer's outbox and either throws
  (\<open>Inl msg\<close>) or returns, in both cases with the outbox it leaves behind. \<open>FakeMailer\<close> is the
  mailer of the repository's tests: it pushes the mail and never throws.
\<close>

type_synonym mailer = "mail \<Rightarrow> mail list \<Rightarrow> (string + unit) \<times> mail list"

definition FakeMailer :: mailer where
  "FakeMailer m outbox = (Inr (), outbox @ [m])"

section \<open>State\<close>

record state =
  participations :: "participation list"
  users :: "user list"
  webinars :: "webinar list"
  emails :: "mail list"

section \<open>The use case \<open>BookSeat\<close>\<close>

text \<open>
  \<open>organizer?.props.email\<close>: undefined when the organizer is null, its email otherwise.
  The condition of the \<open>if\<close> is the truthiness of that value: an absent or empty string is
  falsy.
\<close>

definition optional_email :: "user option \<Rightarrow> string option" where
  "optional_email organizer = (case organizer of None \<Rightarrow> None | Some u \<Rightarrow> email u)"

definition truthy :: "string option \<Rightarrow> bool" where
  "truthy v = (case v of None \<Rightarrow> False | Some s \<Rightarrow> s \<noteq> [])"

text \<open>Interpolation of a value into a template literal: an absent value prints as
  \<open>undefined\<close>.\<close>

definition interpolate :: "string option \<Rightarrow> string" where
  "interpolate v = (case v of None \<Rightarrow> ''undefined'' | Some s \<Rightarrow> s)"

definition organizer_mail :: "string \<Rightarrow> webinar \<Rightarrow> user \<Rightarrow> mail" where
  "organizer_mail addr w usr =
     \<lparr>to = addr, subject = ''New participant'',
      body = ''New participant for webinar '' @ title w @ '': '' @ interpolate (email usr)\<rparr>"

definition sendEmailToOrganizer ::
  "mailer \<Rightarrow> webinar \<Rightarrow> user \<Rightarrow> state \<Rightarrow> (exn + unit) \<times> state" where
  "sendEmailToOrganizer mailer w usr st =
     (let organizer = userRepository_findById (organizerId w) (users st) in
      case optional_email organizer of
        Some addr \<Rightarrow>
          if truthy (Some addr) then
            (case mailer (organizer_mail addr w usr) (emails st) of
               (Inl msg, outbox) \<Rightarrow> (Inl (MailerFailure msg), st\<lparr>emails := outbox\<rparr>)
             | (Inr _, outbox) \<Rightarrow> (Inr (), st\<lparr>emails := outbox\<rparr>))
          else (Inl EmailNotFoundException, st)
      | None \<Rightarrow> (Inl EmailNotFoundException, st))"

text \<open>
  \<open>execute\<close> takes the mailer, the value of \<open>new Date()\<close> at the time of the call, the
  request (\<open>webinarId\<close> and \<open>user\<close>) and the state of the collaborators; it returns the
  exception thrown or the response, with the state it leaves behind.
\<close>

definition execute ::
  "mailer \<Rightarrow> int \<Rightarrow> string \<Rightarrow> user \<Rightarrow> state \<Rightarrow> (exn + response) \<times> state" where
  "execute mailer now wid usr st =
     (let participation = findByWebinarId wid (participations st) in
      case webinarRepository_findById wid (webinars st) of
        Inl e \<Rightarrow> (Inl e, st)
      | Inr w \<Rightarrow>
          if list_ex (\<lambda>p. userId p = user_id usr) participation
            then (Inl UserIsAlreadyRegisteredException, st)
          else if isTooSoon w now then (Inl WebinarDatesTooSoonException, st)
          else if hasTooManySeats w then (Inl WebinarTooManySeatsException, st)
          else if hasNotEnoughSeats w then (Inl WebinarNotEnoughSeatsException, st)
          else
            (let newParticipation = \<lparr>userId = user_id usr, webinarId = wid\<rparr>;
                 st1 = st\<lparr>participations := save newParticipation (participations st)\<rparr>
             in case sendEmailToOrganizer mailer w usr st1 of
                  (Inl e, st2) \<Rightarrow> (Inl e, st2)
                | (Inr _, st2) \<Rightarrow>
                    (Inr \<lparr>success = True, message = ''User registered successfully''\<rparr>, st2)))"

section \<open>Fixtures of the test suite\<close>

text \<open>
  The objects the tests of \<open>BookSeat\<close> build, with the clock at 0: the registrant
  \<open>user1\<close>, the organizer \<open>organizer1\<close> and the webinar \<open>webinar1\<close>, whose start date and
  number of seats vary from test to test.
\<close>

definition test_user :: user where
  "test_user = \<lparr>user_id = ''user1'', email = Some ''user@example.com'', password = ''password''\<rparr>"

definition test_organizer :: "string option \<Rightarrow> user" where
  "test_organizer addr = \<lparr>user_id = ''organizer1'', email = addr, password = ''password''\<rparr>"

definition test_webinar :: "int \<Rightarrow> int \<Rightarrow> webinar" where
  "test_webinar start n =
     \<lparr>webinar_id = ''webinar1'', organizerId = ''organizer1'', title = ''Webinar Test'',
      startDate = start, endDate = start + 24 * 60 * 60 * 1000, seats = n\<rparr>"

definition test_state :: "participation list \<Rightarrow> user list \<Rightarrow> webinar list \<Rightarrow> state" where
  "test_state ps us ws = \<lparr>participations = ps, users = us, webinars = ws, emails = []\<rparr>"

text \<open>A mailer whose \<open>send\<close> always throws and leaves the outbox as it was.\<close>

definition FailingMailer :: mailer where
  "FailingMailer m outbox = (Inl ''SMTP connection refused'', outbox)"

section \<open>Lemmas on the collaborators\<close>

lemma webinar_lookup_absent:
  "find (\<lambda>w. webinar_id w = wid) db = None \<Longrightarrow>
     webinarRepository_findById wid db = Inl (Error ''Webinar not found.'')"
  by (simp add: webinarRepository_findById_def)

lemma webinar_lookup_present:
  "find (\<lambda>w. webinar_id w = wid) db = Some w \<Longrightarrow> webinarRepository_findById wid db = Inr w"
  by (simp add: webinarRepository_findById_def)

lemma some_registration_iff:
  "list_ex (\<lambda>p. userId p = uid) (findByWebinarId wid ps) \<longleftrightarrow>
     (\<exists>p\<in>set ps. webinarId p = wid \<and> userId p = uid)"
  by (auto simp: findByWebinarId_def list_ex_iff)

lemma no_registration:
  "\<not> (\<exists>p\<in>set ps. webinarId p = wid \<and> userId p = uid) \<Longrightarrow>
     \<not> list_ex (\<lambda>p. userId p = uid) (findByWebinarId wid ps)"
  using some_registration_iff [of uid wid ps] by blast

lemma send_without_contact:
  assumes "\<not> truthy (optional_email (userRepository_findById (organizerId w) (users st)))"
  shows "sendEmailToOrganizer mailer w usr st = (Inl EmailNotFoundException, st)"
  using assms by (simp add: sendEmailToOrganizer_def Let_def truthy_def split: option.splits)

lemma send_with_contact:
  assumes "find (\<lambda>u. user_id u = organizerId w) (users st) = Some org"
    and "email org = Some addr" and "addr \<noteq> []"
  shows "sendEmailToOrganizer mailer w usr st =
     (case mailer (organizer_mail addr w usr) (emails st) of
        (Inl msg, outbox) \<Rightarrow> (Inl (MailerFailure msg), st\<lparr>emails := outbox\<rparr>)
      | (Inr _, outbox) \<Rightarrow> (Inr (), st\<lparr>emails := outbox\<rparr>))"
  using assms
  by (simp add: sendEmailToOrganizer_def Let_def truthy_def optional_email_def
      userRepository_findById_def)

section \<open>Lemmas on \<open>execute\<close>\<close>

lemma execute_absent:
  assumes "find (\<lambda>w. webinar_id w = wid) (webinars st) = None"
  shows "execute mailer now wid usr st = (Inl (Error ''Webinar not found.''), st)"
  using assms by (simp add: execute_def webinar_lookup_absent)

lemma execute_duplicate:
  assumes "find (\<lambda>w. webinar_id w = wid) (webinars st) = Some w"
    and "\<exists>p\<in>set (participations st). webinarId p = wid \<and> userId p = user_id usr"
  shows "execute mailer now wid usr st = (Inl UserIsAlreadyRegisteredException, st)"
  using assms by (simp add: execute_def webinar_lookup_present some_registration_iff)

lemma execute_too_soon:
  assumes "find (\<lambda>w. webinar_id w = wid) (webinars st) = Some w"
    and "\<not> (\<exists>p\<in>set (participations st). webinarId p = wid \<and> userId p = user_id usr)"
    and "isTooSoon w now"
  shows "execute mailer now wid usr st = (Inl WebinarDatesTooSoonException, st)"
  using assms(1,3) no_registration [OF assms(2)]
  by (simp add: execute_def webinar_lookup_present)

lemma execute_too_many:
  assumes "find (\<lambda>w. webinar_id w = wid) (webinars st) = Some w"
    and "\<not> (\<exists>p\<in>set (participations st). webinarId p = wid \<and> userId p = user_id usr)"
    and "\<not> isTooSoon w now" and "hasTooManySeats w"
  shows "execute mailer now wid usr st = (Inl WebinarTooManySeatsException, st)"
  using assms(1,3,4) no_registration [OF assms(2)]
  by (simp add: execute_def webinar_lookup_present)

lemma execute_not_enough:
  assumes "find (\<lambda>w. webinar_id w = wid) (webinars st) = Some w"
    and "\<not> (\<exists>p\<in>set (participations st). webinarId p = wid \<and> userId p = user_id usr)"
    and "\<not> isTooSoon w now" and "\<not> hasTooManySeats w" and "hasNotEnoughSeats w"
  shows "execute mailer now wid usr st = (Inl WebinarNotEnoughSeatsException, st)"
  using assms(1,3-5) no_registration [OF assms(2)]
  by (simp add: execute_def webinar_lookup_present)

text \<open>Once the four checks are passed, the participation is saved and the outcome is that
  of \<open>sendEmailToOrganizer\<close> on the state holding it.\<close>

lemma execute_persists:
  assumes "find (\<lambda>w. webinar_id w = wid) (webinars st) = Some w"
    and "\<not> (\<exists>p\<in>set (participations st). webinarId p = wid \<and> userId p = user_id usr)"
    and "\<not> isTooSoon w now" and "\<not> hasTooManySeats w" and "\<not> hasNotEnoughSeats w"
  shows "execute mailer now wid usr st =
     (case sendEmailToOrganizer mailer w usr
             (st\<lparr>participations := participations st @ [\<lparr>userId = user_id usr, webinarId = wid\<rparr>]\<rparr>) of
        (Inl e, st2) \<Rightarrow> (Inl e, st2)
      | (Inr _, st2) \<Rightarrow>
          (Inr \<lparr>success = True, message = ''User registered successfully''\<rparr>, st2))"
  using assms(1,3-5) no_registration [OF assms(2)]
  by (simp add: execute_def webinar_lookup_present save_def Let_def)

lemma execute_without_contact:
  assumes "find (\<lambda>w. webinar_id w = wid) (webinars st) = Some w"
    and "\<not> (\<exists>p\<in>set (participations st). webinarId p = wid \<and> userId p = user_id usr)"
    and "\<not> isTooSoon w now" and "\<not> hasTooManySeats w" and "\<not> hasNotEnoughSeats w"
    and "\<not> truthy (optional_email (userRepository_findById (organizerId w) (users st)))"
  shows "execute mailer now wid usr st =
     (Inl EmailNotFoundException,
      st\<lparr>participations := participations st @ [\<lparr>userId = user_id usr, webinarId = wid\<rparr>]\<rparr>)"
  using assms by (simp add: execute_persists send_without_contact)

lemma execute_with_contact:
  assumes "find (\<lambda>w. webinar_id w = wid) (webinars st) = Some w"
    and "\<not> (\<exists>p\<in>set (participations st). webinarId p = wid \<and> userId p = user_id usr)"
    and "\<not> isTooSoon w now" and "\<not> hasTooManySeats w" and "\<not> hasNotEnoughSeats w"
    and "find (\<lambda>u. user_id u = organizerId w) (users st) = Some org"
    and "email org = Some addr" and "addr \<noteq> []"
  shows "execute mailer now wid usr st =
     (case mailer (organizer_mail addr w usr) (emails st) of
        (Inl msg, outbox) \<Rightarrow>
          (Inl (MailerFailure msg),
           st\<lparr>participations := participations st @ [\<lparr>userId = user_id usr, webinarId = wid\<rparr>],
              emails := outbox\<rparr>)
      | (Inr _, outbox) \<Rightarrow>
          (Inr \<lparr>success = True, message = ''User registered successfully''\<rparr>,
           st\<lparr>participations := participations st @ [\<lparr>userId = user_id usr, webinarId = wid\<rparr>],
              emails := outbox\<rparr>))"
proof -
  let ?st1 = "st\<lparr>participations := participations st @ [\<lparr>userId = user_id usr, webinarId = wid\<rparr>]\<rparr>"
  have org: "find (\<lambda>u. user_id u = organizerId w) (users ?st1) = Some org"
    using assms(6) by simp
  show ?thesis
    using assms(1-5)
    by (simp add: execute_persists send_with_contact [OF org assms(7,8)]
        split: prod.splits sum.splits)
qed

lemma execute_accepted:
  assumes "find (\<lambda>w. webinar_id w = wid) (webinars st) = Some w"
    and "\<not> (\<exists>p\<in>set (participations st). webinarId p = wid \<and> userId p = user_id usr)"
    and "\<not> isTooSoon w now" and "\<not> hasTooManySeats w" and "\<not> hasNotEnoughSeats w"
    and "find (\<lambda>u. user_id u = organizerId w) (users st) = Some org"
    and "email org = Some addr" and "addr \<noteq> []"
    and "mailer (organizer_mail addr w usr) (emails st) = (Inr (), outbox)"
  shows "execute mailer now wid usr st =
     (Inr \<lparr>success = True, message = ''User registered successfully''\<rparr>,
      st\<lparr>participations := participations st @ [\<lparr>userId = user_id usr, webinarId = wid\<rparr>],
         emails := outbox\<rparr>)"
  using execute_with_contact [OF assms(1-8), of mailer] assms(9) by simp

lemma execute_refused:
  assumes "find (\<lambda>w. webinar_id w = wid) (webinars st) = Some w"
    and "\<not> (\<exists>p\<in>set (participations st). webinarId p = wid \<and> userId p = user_id usr)"
    and "\<not> isTooSoon w now" and "\<not> hasTooManySeats w" and "\<not> hasNotEnoughSeats w"
    and "find (\<lambda>u. user_id u = organizerId w) (users st) = Some org"
    and "email org = Some addr" and "addr \<noteq> []"
    and "mailer (organizer_mail addr w usr) (emails st) = (Inl msg, outbox)"
  shows "execute mailer now wid usr st =
     (Inl (MailerFailure msg),
      st\<lparr>participations := participations st @ [\<lparr>userId = user_id usr, webinarId = wid\<rparr>],
         emails := outbox\<rparr>)"
  using execute_with_contact [OF assms(1-8), of mailer] assms(9) by simp

lemma no_contact_cases:
  "\<not> truthy (optional_email None)"
  "email org = None \<or> email org = Some [] \<Longrightarrow> \<not> truthy (optional_email (Some org))"
  by (auto simp: truthy_def optional_email_def)

section \<open>Unknown webinar\<close>

text \<open>
  C8: for every request whose webinar id does not resolve in the webinar repository,
  \<open>findById\<close> throws \<open>Error('Webinar not found.')\<close>, \<open>execute\<close> throws that same error
  unchanged, and the state is left as it was: no participation is saved.
\<close>

theorem C8_unknown_webinar:
  assumes "find (\<lambda>w. webinar_id w = wid) (webinars st) = None"
  shows "webinarRepository_findById wid (webinars st) = Inl (Error ''Webinar not found.'') \<and>
         execute mailer now wid usr st = (Inl (Error ''Webinar not found.''), st) \<and>
         participations (snd (execute mailer now wid usr st)) = participations st"
  using assms by (simp add: execute_absent webinar_lookup_absent)

theorem C8_unknown_webinar_witness:
  "find (\<lambda>w. webinar_id w = ''webinar2'')
      (webinars (test_state [] [test_organizer (Some ''organizer@example.com'')]
                   [test_webinar 345600000 100])) = None \<and>
   execute FakeMailer 0 ''webinar2'' test_user
      (test_state [] [test_organizer (Some ''organizer@example.com'')]
         [test_webinar 345600000 100]) =
     (Inl (Error ''Webinar not found.''),
      test_state [] [test_organizer (Some ''organizer@example.com'')]
         [test_webinar 345600000 100])"
  using C8_unknown_webinar [of "''webinar2''"
      "test_state [] [test_organizer (Some ''organizer@example.com'')]
         [test_webinar 345600000 100]" FakeMailer 0 test_user]
  by (simp add: test_state_def test_webinar_def)

section \<open>Duplicate registration\<close>

text \<open>
  C2: in every state in which some participation stored for the webinar carries the id
  of the requesting user (the webinar itself resolving), \<open>execute\<close> throws
  \<open>UserIsAlreadyRegisteredException\<close> and leaves the state as it was, so the number of
  participations of that user in that webinar does not grow.
\<close>

theorem C2_duplicate_rejected:
  assumes "find (\<lambda>w. webinar_id w = wid) (webinars st) = Some w"
    and "\<exists>p\<in>set (participations st). webinarId p = wid \<and> userId p = user_id usr"
  shows "execute mailer now wid usr st = (Inl UserIsAlreadyRegisteredException, st) \<and>
         length (filter (\<lambda>p. userId p = user_id usr \<and> webinarId p = wid)
                   (participations (snd (execute mailer now wid usr st)))) =
         length (filter (\<lambda>p. userId p = user_id usr \<and> webinarId p = wid) (participations st))"
  using assms by (simp add: execute_duplicate)

theorem C2_duplicate_rejected_witness:
  "find (\<lambda>w. webinar_id w = ''webinar1'')
      (webinars (test_state [\<lparr>userId = ''user1'', webinarId = ''webinar1''\<rparr>] []
                   [test_webinar 345600000 100])) = Some (test_webinar 345600000 100) \<and>
   (\<exists>p\<in>set (participations (test_state [\<lparr>userId = ''user1'', webinarId = ''webinar1''\<rparr>] []
                   [test_webinar 345600000 100])).
       webinarId p = ''webinar1'' \<and> userId p = user_id test_user) \<and>
   execute FakeMailer 0 ''webinar1'' test_user
      (test_state [\<lparr>userId = ''user1'', webinarId = ''webinar1''\<rparr>] []
         [test_webinar 345600000 100]) =
     (Inl UserIsAlreadyRegisteredException,
      test_state [\<lparr>userId = ''user1'', webinarId = ''webinar1''\<rparr>] []
         [test_webinar 345600000 100])"
  using C2_duplicate_rejected [of "''webinar1''"
      "test_state [\<lparr>userId = ''user1'', webinarId = ''webinar1''\<rparr>] []
         [test_webinar 345600000 100]" "test_webinar 345600000 100" test_user FakeMailer 0]
  by (simp add: test_state_def test_webinar_def test_user_def)

text \<open>The second of two bookings by the same user: after a booking that returned, the
  same request is rejected and saves nothing more.\<close>

lemma execute_returns:
  assumes "execute mailer now wid usr st = (Inr r, st')"
  shows "webinars st' = webinars st \<and>
         \<lparr>userId = user_id usr, webinarId = wid\<rparr> \<in> set (participations st') \<and>
         (\<exists>w. find (\<lambda>w. webinar_id w = wid) (webinars st) = Some w)"
  using assms
  by (auto simp: execute_def sendEmailToOrganizer_def webinarRepository_findById_def
      save_def Let_def split: option.splits if_splits prod.splits sum.splits)

lemma second_booking_rejected:
  assumes "execute mailer now wid usr st = (Inr r, st')"
  shows "execute mailer' now' wid usr st' = (Inl UserIsAlreadyRegisteredException, st')"
proof -
  from execute_returns [OF assms] obtain w
    where w: "find (\<lambda>w. webinar_id w = wid) (webinars st') = Some w"
      and p: "\<lparr>userId = user_id usr, webinarId = wid\<rparr> \<in> set (participations st')"
    by auto
  from p have "\<exists>p\<in>set (participations st'). webinarId p = wid \<and> userId p = user_id usr"
    by (rule bexI [rotated]) simp
  with w show ?thesis by (rule execute_duplicate)
qed

section \<open>Failures before the save\<close>

text \<open>
  C10: every execution of \<open>execute\<close> that throws the webinar-not-found error,
  \<open>UserIsAlreadyRegisteredException\<close>, \<open>WebinarDatesTooSoonException\<close>,
  \<open>WebinarTooManySeatsException\<close> or \<open>WebinarNotEnoughSeatsException\<close> leaves the state
  unchanged: no participation is saved and no mail is sent.
\<close>

theorem C10_early_failure_keeps_state:
  assumes "execute mailer now wid usr st = (Inl e, st')"
    and "e = Error ''Webinar not found.'' \<or> e = UserIsAlreadyRegisteredException \<or>
         e = WebinarDatesTooSoonException \<or> e = WebinarTooManySeatsException \<or>
         e = WebinarNotEnoughSeatsException"
  shows "st' = st \<and> participations st' = participations st \<and> emails st' = emails st"
proof -
  have "st' = st"
    using assms
    by (auto simp: execute_def sendEmailToOrganizer_def webinarRepository_findById_def
        Let_def split: option.splits if_splits prod.splits sum.splits)
  then show ?thesis by simp
qed

theorem C10_early_failure_keeps_state_witness:
  "execute FakeMailer 0 ''webinar2'' test_user
      (test_state [] [test_organizer (Some ''organizer@example.com'')]
         [test_webinar 345600000 100]) =
     (Inl (Error ''Webinar not found.''),
      test_state [] [test_organizer (Some ''organizer@example.com'')]
         [test_webinar 345600000 100]) \<and>
   execute FakeMailer 0 ''webinar1'' test_user
      (test_state [\<lparr>userId = ''user1'', webinarId = ''webinar1''\<rparr>]
         [test_organizer (Some ''organizer@example.com'')] [test_webinar 345600000 100]) =
     (Inl UserIsAlreadyRegisteredException,
      test_state [\<lparr>userId = ''user1'', webinarId = ''webinar1''\<rparr>]
         [test_organizer (Some ''organizer@example.com'')] [test_webinar 345600000 100]) \<and>
   execute FakeMailer 0 ''webinar1'' test_user
      (test_state [] [test_organizer (Some ''organizer@example.com'')]
         [test_webinar 172800000 100]) =
     (Inl WebinarDatesTooSoonException,
      test_state [] [test_organizer (Some ''organizer@example.com'')]
         [test_webinar 172800000 100]) \<and>
   execute FakeMailer 0 ''webinar1'' test_user
      (test_state [] [test_organizer (Some ''organizer@example.com'')]
         [test_webinar 345600000 1500]) =
     (Inl WebinarTooManySeatsException,
      test_state [] [test_organizer (Some ''organizer@example.com'')]
         [test_webinar 345600000 1500]) \<and>
   execute FakeMailer 0 ''webinar1'' test_user
      (test_state [] [test_organizer (Some ''organizer@example.com'')]
         [test_webinar 345600000 0]) =
     (Inl WebinarNotEnoughSeatsException,
      test_state [] [test_organizer (Some ''organizer@example.com'')]
         [test_webinar 345600000 0])"
  using C10_early_failure_keeps_state [of FakeMailer 0 "''webinar1''" test_user
      "test_state [] [test_organizer (Some ''organizer@example.com'')]
         [test_webinar 172800000 100]" WebinarDatesTooSoonException
      "test_state [] [test_organizer (Some ''organizer@example.com'')]
         [test_webinar 172800000 100]"]
  by (simp add: execute_def webinarRepository_findById_def findByWebinarId_def
      isTooSoon_def hasTooManySeats_def hasNotEnoughSeats_def
      test_state_def test_webinar_def test_user_def)

section \<open>Order of the checks\<close>

text \<open>
  C6: the order of the checks of \<open>execute\<close> is fixed. For a webinar that resolves, a
  duplicate registration is reported whatever the start date and the seats are; otherwise a
  start date too soon is reported whatever the seats are; otherwise too many seats are
  reported, and otherwise not enough seats. No webinar has both too many and not enough
  seats.
\<close>

theorem C6_validation_order:
  assumes "find (\<lambda>w. webinar_id w = wid) (webinars st) = Some w"
  shows "((\<exists>p\<in>set (participations st). webinarId p = wid \<and> userId p = user_id usr) \<longrightarrow>
            execute mailer now wid usr st = (Inl UserIsAlreadyRegisteredException, st)) \<and>
         (\<not> (\<exists>p\<in>set (participations st). webinarId p = wid \<and> userId p = user_id usr) \<and>
            isTooSoon w now \<longrightarrow>
            execute mailer now wid usr st = (Inl WebinarDatesTooSoonException, st)) \<and>
         (\<not> (\<exists>p\<in>set (participations st). webinarId p = wid \<and> userId p = user_id usr) \<and>
            \<not> isTooSoon w now \<and> hasTooManySeats w \<longrightarrow>
            execute mailer now wid usr st = (Inl WebinarTooManySeatsException, st)) \<and>
         (\<not> (\<exists>p\<in>set (participations st). webinarId p = wid \<and> userId p = user_id usr) \<and>
            \<not> isTooSoon w now \<and> hasNotEnoughSeats w \<longrightarrow>
            execute mailer now wid usr st = (Inl WebinarNotEnoughSeatsException, st)) \<and>
         \<not> (hasTooManySeats w \<and> hasNotEnoughSeats w)"
proof -
  have excl: "\<not> (hasTooManySeats w \<and> hasNotEnoughSeats w)"
    by (simp add: hasTooManySeats_def hasNotEnoughSeats_def)
  show ?thesis
    using excl execute_duplicate [OF assms] execute_too_soon [OF assms]
      execute_too_many [OF assms] execute_not_enough [OF assms]
    by blast
qed

theorem C6_validation_order_witness:
  "execute FakeMailer 0 ''webinar1'' test_user
      (test_state [\<lparr>userId = ''user1'', webinarId = ''webinar1''\<rparr>] []
         [test_webinar 172800000 1500]) =
     (Inl UserIsAlreadyRegisteredException,
      test_state [\<lparr>userId = ''user1'', webinarId = ''webinar1''\<rparr>] []
         [test_webinar 172800000 1500]) \<and>
   isTooSoon (test_webinar 172800000 1500) 0 \<and>
   hasTooManySeats (test_webinar 172800000 1500) \<and>
   execute FakeMailer 0 ''webinar1'' test_user
      (test_state [] [] [test_webinar 172800000 1500]) =
     (Inl WebinarDatesTooSoonException, test_state [] [] [test_webinar 172800000 1500]) \<and>
   isTooSoon (test_webinar 172800000 0) 0 \<and>
   hasNotEnoughSeats (test_webinar 172800000 0) \<and>
   execute FakeMailer 0 ''webinar1'' test_user
      (test_state [] [] [test_webinar 172800000 0]) =
     (Inl WebinarDatesTooSoonException, test_state [] [] [test_webinar 172800000 0]) \<and>
   execute FakeMailer 0 ''webinar1'' test_user
      (test_state [] [] [test_webinar 345600000 1500]) =
     (Inl WebinarTooManySeatsException, test_state [] [] [test_webinar 345600000 1500]) \<and>
   execute FakeMailer 0 ''webinar1'' test_user
      (test_state [] [] [test_webinar 345600000 0]) =
     (Inl WebinarNotEnoughSeatsException, test_state [] [] [test_webinar 345600000 0])"
  using
    C6_validation_order [of "''webinar1''"
      "test_state [\<lparr>userId = ''user1'', webinarId = ''webinar1''\<rparr>] []
         [test_webinar 172800000 1500]" "test_webinar 172800000 1500" test_user FakeMailer 0]
    C6_validation_order [of "''webinar1''" "test_state [] [] [test_webinar 172800000 1500]"
      "test_webinar 172800000 1500" test_user FakeMailer 0]
    C6_validation_order [of "''webinar1''" "test_state [] [] [test_webinar 172800000 0]"
      "test_webinar 172800000 0" test_user FakeMailer 0]
    C6_validation_order [of "''webinar1''" "test_state [] [] [test_webinar 345600000 1500]"
      "test_webinar 345600000 1500" test_user FakeMailer 0]
    C6_validation_order [of "''webinar1''" "test_state [] [] [test_webinar 345600000 0]"
      "test_webinar 345600000 0" test_user FakeMailer 0]
  by (simp add: isTooSoon_def hasTooManySeats_def hasNotEnoughSeats_def
      test_state_def test_webinar_def test_user_def)

section \<open>A valid booking\<close>

text \<open>
  C1: for every execution of \<open>execute\<close> in which the webinar resolves, no participation of
  the webinar carries the user's id, the webinar is not too soon and its seats are within
  bounds, and the organizer resolves with a non-empty email: with the mailer of the
  repository, \<open>execute\<close> returns \<open>{success: true, message: 'User registered successfully'}\<close>,
  the participation of the user in the webinar is appended to the store, which then holds
  exactly one record of that pair, and exactly one mail, addressed to the organizer, with
  subject \<open>New participant\<close> and a body made of the title and the user's email, is appended
  to the outbox. The same holds for every mailer whose \<open>send\<close> returns, with the outbox that
  mailer leaves.
\<close>

theorem C1_valid_booking:
  assumes "find (\<lambda>w. webinar_id w = wid) (webinars st) = Some w"
    and "\<not> (\<exists>p\<in>set (participations st). webinarId p = wid \<and> userId p = user_id usr)"
    and "\<not> isTooSoon w now" and "\<not> hasTooManySeats w" and "\<not> hasNotEnoughSeats w"
    and "find (\<lambda>u. user_id u = organizerId w) (users st) = Some org"
    and "email org = Some addr" and "addr \<noteq> []"
  shows "execute FakeMailer now wid usr st =
           (Inr \<lparr>success = True, message = ''User registered successfully''\<rparr>,
            st\<lparr>participations := participations st @ [\<lparr>userId = user_id usr, webinarId = wid\<rparr>],
               emails := emails st @
                 [\<lparr>to = addr, subject = ''New participant'',
                   body = ''New participant for webinar '' @ title w @ '': '' @
                          interpolate (email usr)\<rparr>]\<rparr>) \<and>
         length (filter (\<lambda>p. userId p = user_id usr \<and> webinarId p = wid)
                   (participations (snd (execute FakeMailer now wid usr st)))) = 1 \<and>
         (\<forall>mailer outbox.
            mailer (organizer_mail addr w usr) (emails st) = (Inr (), outbox) \<longrightarrow>
            execute mailer now wid usr st =
              (Inr \<lparr>success = True, message = ''User registered successfully''\<rparr>,
               st\<lparr>participations :=
                     participations st @ [\<lparr>userId = user_id usr, webinarId = wid\<rparr>],
                  emails := outbox\<rparr>))"
proof -
  have fake: "FakeMailer (organizer_mail addr w usr) (emails st) =
      (Inr (), emails st @ [organizer_mail addr w usr])"
    by (simp add: FakeMailer_def)
  have run: "execute FakeMailer now wid usr st =
      (Inr \<lparr>success = True, message = ''User registered successfully''\<rparr>,
       st\<lparr>participations := participations st @ [\<lparr>userId = user_id usr, webinarId = wid\<rparr>],
          emails := emails st @ [organizer_mail addr w usr]\<rparr>)"
    by (rule execute_accepted [where mailer = FakeMailer, OF assms fake])
  have none: "filter (\<lambda>p. userId p = user_id usr \<and> webinarId p = wid) (participations st) = []"
    using assms(2) by (auto simp: filter_empty_conv)
  have one: "length (filter (\<lambda>p. userId p = user_id usr \<and> webinarId p = wid)
      (participations (snd (execute FakeMailer now wid usr st)))) = 1"
    by (simp add: run none)
  have any: "\<forall>mailer outbox.
      mailer (organizer_mail addr w usr) (emails st) = (Inr (), outbox) \<longrightarrow>
      execute mailer now wid usr st =
        (Inr \<lparr>success = True, message = ''User registered successfully''\<rparr>,
         st\<lparr>participations := participations st @ [\<lparr>userId = user_id usr, webinarId = wid\<rparr>],
            emails := outbox\<rparr>)"
    using execute_accepted [OF assms] by blast
  from run one any show ?thesis
    by (simp only: organizer_mail_def)
qed

theorem C1_valid_booking_witness:
  "execute FakeMailer 0 ''webinar1'' test_user
      (test_state [] [test_organizer (Some ''organizer@example.com'')]
         [test_webinar 345600000 100]) =
     (Inr \<lparr>success = True, message = ''User registered successfully''\<rparr>,
      \<lparr>participations = [\<lparr>userId = ''user1'', webinarId = ''webinar1''\<rparr>],
       users = [test_organizer (Some ''organizer@example.com'')],
       webinars = [test_webinar 345600000 100],
       emails = [\<lparr>to = ''organizer@example.com'', subject = ''New participant'',
                  body = ''New participant for webinar Webinar Test: user@example.com''\<rparr>]\<rparr>) \<and>
   length (filter (\<lambda>p. userId p = ''user1'' \<and> webinarId p = ''webinar1'')
      (participations (snd (execute FakeMailer 0 ''webinar1'' test_user
         (test_state [] [test_organizer (Some ''organizer@example.com'')]
            [test_webinar 345600000 100]))))) = 1"
  using C1_valid_booking [of "''webinar1''"
      "test_state [] [test_organizer (Some ''organizer@example.com'')]
         [test_webinar 345600000 100]"
      "test_webinar 345600000 100" test_user 0
      "test_organizer (Some ''organizer@example.com'')" "''organizer@example.com''"]
  by (simp add: isTooSoon_def hasTooManySeats_def hasNotEnoughSeats_def interpolate_def
      test_state_def test_webinar_def test_user_def test_organizer_def)

section \<open>Failures after the save\<close>

lemma send_keeps_participations:
  "participations (snd (sendEmailToOrganizer mailer w usr st)) = participations st"
  by (simp add: sendEmailToOrganizer_def Let_def split: option.splits prod.splits sum.splits)

lemma execute_saves:
  assumes "find (\<lambda>w. webinar_id w = wid) (webinars st) = Some w"
    and "\<not> (\<exists>p\<in>set (participations st). webinarId p = wid \<and> userId p = user_id usr)"
    and "\<not> isTooSoon w now" and "\<not> hasTooManySeats w" and "\<not> hasNotEnoughSeats w"
  shows "participations (snd (execute mailer now wid usr st)) =
     participations st @ [\<lparr>userId = user_id usr, webinarId = wid\<rparr>]"
proof -
  let ?st1 = "st\<lparr>participations := participations st @ [\<lparr>userId = user_id usr, webinarId = wid\<rparr>]\<rparr>"
  have "snd (execute mailer now wid usr st) = snd (sendEmailToOrganizer mailer w usr ?st1)"
    by (simp add: execute_persists [OF assms] split: prod.splits sum.splits)
  then show ?thesis
    by (simp add: send_keeps_participations)
qed

text \<open>
  C3: for every execution in which the four checks before the save pass and the organizer
  resolves: if the organizer's email is absent or empty, \<open>execute\<close> throws
  \<open>EmailNotFoundException\<close>, and if the mailer's \<open>send\<close> throws, \<open>execute\<close> throws what the
  mailer threw; in both cases the state left behind holds the participation saved before,
  and whatever happens after the save, the participation is in the store.
\<close>

theorem C3_no_rollback:
  assumes "find (\<lambda>w. webinar_id w = wid) (webinars st) = Some w"
    and "\<not> (\<exists>p\<in>set (participations st). webinarId p = wid \<and> userId p = user_id usr)"
    and "\<not> isTooSoon w now" and "\<not> hasTooManySeats w" and "\<not> hasNotEnoughSeats w"
    and "find (\<lambda>u. user_id u = organizerId w) (users st) = Some org"
  shows "(email org = None \<or> email org = Some [] \<longrightarrow>
            execute mailer now wid usr st =
              (Inl EmailNotFoundException,
               st\<lparr>participations :=
                     participations st @ [\<lparr>userId = user_id usr, webinarId = wid\<rparr>]\<rparr>)) \<and>
         (\<forall>addr msg outbox.
            email org = Some addr \<and> addr \<noteq> [] \<and>
            mailer (organizer_mail addr w usr) (emails st) = (Inl msg, outbox) \<longrightarrow>
            execute mailer now wid usr st =
              (Inl (MailerFailure msg),
               st\<lparr>participations :=
                     participations st @ [\<lparr>userId = user_id usr, webinarId = wid\<rparr>],
                  emails := outbox\<rparr>)) \<and>
         \<lparr>userId = user_id usr, webinarId = wid\<rparr> \<in>
            set (participations (snd (execute mailer now wid usr st)))"
proof (intro conjI impI allI)
  assume "email org = None \<or> email org = Some []"
  then have "\<not> truthy (optional_email (userRepository_findById (organizerId w) (users st)))"
    using assms(6) by (simp add: userRepository_findById_def no_contact_cases)
  then show "execute mailer now wid usr st =
      (Inl EmailNotFoundException,
       st\<lparr>participations := participations st @ [\<lparr>userId = user_id usr, webinarId = wid\<rparr>]\<rparr>)"
    by (rule execute_without_contact [OF assms(1-5)])
next
  fix addr msg outbox
  assume "email org = Some addr \<and> addr \<noteq> [] \<and>
    mailer (organizer_mail addr w usr) (emails st) = (Inl msg, outbox)"
  then show "execute mailer now wid usr st =
      (Inl (MailerFailure msg),
       st\<lparr>participations := participations st @ [\<lparr>userId = user_id usr, webinarId = wid\<rparr>],
          emails := outbox\<rparr>)"
    using execute_refused [OF assms] by blast
next
  show "\<lparr>userId = user_id usr, webinarId = wid\<rparr> \<in>
      set (participations (snd (execute mailer now wid usr st)))"
    by (simp add: execute_saves [OF assms(1-5)])
qed

theorem C3_no_rollback_witness:
  "execute FakeMailer 0 ''webinar1'' test_user
      (test_state [] [test_organizer None] [test_webinar 345600000 100]) =
     (Inl EmailNotFoundException,
      test_state [\<lparr>userId = ''user1'', webinarId = ''webinar1''\<rparr>] [test_organizer None]
        [test_webinar 345600000 100]) \<and>
   execute FakeMailer 0 ''webinar1'' test_user
      (test_state [] [test_organizer (Some [])] [test_webinar 345600000 100]) =
     (Inl EmailNotFoundException,
      test_state [\<lparr>userId = ''user1'', webinarId = ''webinar1''\<rparr>] [test_organizer (Some [])]
        [test_webinar 345600000 100]) \<and>
   execute FailingMailer 0 ''webinar1'' test_user
      (test_state [] [test_organizer (Some ''organizer@example.com'')]
         [test_webinar 345600000 100]) =
     (Inl (MailerFailure ''SMTP connection refused''),
      test_state [\<lparr>userId = ''user1'', webinarId = ''webinar1''\<rparr>]
        [test_organizer (Some ''organizer@example.com'')] [test_webinar 345600000 100])"
  using
    C3_no_rollback [of "''webinar1''"
      "test_state [] [test_organizer None] [test_webinar 345600000 100]"
      "test_webinar 345600000 100" test_user 0 "test_organizer None" FakeMailer]
    C3_no_rollback [of "''webinar1''"
      "test_state [] [test_organizer (Some [])] [test_webinar 345600000 100]"
      "test_webinar 345600000 100" test_user 0 "test_organizer (Some [])" FakeMailer]
    C3_no_rollback [of "''webinar1''"
      "test_state [] [test_organizer (Some ''organizer@example.com'')]
         [test_webinar 345600000 100]"
      "test_webinar 345600000 100" test_user 0
      "test_organizer (Some ''organizer@example.com'')" FailingMailer]
  by (simp add: isTooSoon_def hasTooManySeats_def hasNotEnoughSeats_def FailingMailer_def
      test_state_def test_webinar_def test_user_def test_organizer_def)

text \<open>
  C9: when the four checks before the save pass and the user repository returns null for
  the webinar's organizer id, \<open>execute\<close> throws \<open>EmailNotFoundException\<close>, the very exception
  it throws when the organizer exists with an absent or empty email, and the state left
  behind already holds the saved participation.
\<close>

theorem C9_absent_organizer:
  assumes "find (\<lambda>w. webinar_id w = wid) (webinars st) = Some w"
    and "\<not> (\<exists>p\<in>set (participations st). webinarId p = wid \<and> userId p = user_id usr)"
    and "\<not> isTooSoon w now" and "\<not> hasTooManySeats w" and "\<not> hasNotEnoughSeats w"
  shows "(userRepository_findById (organizerId w) (users st) = None \<longrightarrow>
            execute mailer now wid usr st =
              (Inl EmailNotFoundException,
               st\<lparr>participations :=
                     participations st @ [\<lparr>userId = user_id usr, webinarId = wid\<rparr>]\<rparr>)) \<and>
         (\<forall>org. userRepository_findById (organizerId w) (users st) = Some org \<and>
                (email org = None \<or> email org = Some []) \<longrightarrow>
            execute mailer now wid usr st =
              (Inl EmailNotFoundException,
               st\<lparr>participations :=
                     participations st @ [\<lparr>userId = user_id usr, webinarId = wid\<rparr>]\<rparr>))"
proof (intro conjI impI allI)
  assume "userRepository_findById (organizerId w) (users st) = None"
  then have "\<not> truthy (optional_email (userRepository_findById (organizerId w) (users st)))"
    by (simp add: no_contact_cases)
  then show "execute mailer now wid usr st =
      (Inl EmailNotFoundException,
       st\<lparr>participations := participations st @ [\<lparr>userId = user_id usr, webinarId = wid\<rparr>]\<rparr>)"
    by (rule execute_without_contact [OF assms])
next
  fix org
  assume "userRepository_findById (organizerId w) (users st) = Some org \<and>
    (email org = None \<or> email org = Some [])"
  then have "\<not> truthy (optional_email (userRepository_findById (organizerId w) (users st)))"
    by (simp add: no_contact_cases)
  then show "execute mailer now wid usr st =
      (Inl EmailNotFoundException,
       st\<lparr>participations := participations st @ [\<lparr>userId = user_id usr, webinarId = wid\<rparr>]\<rparr>)"
    by (rule execute_without_contact [OF assms])
qed

theorem C9_absent_organizer_witness:
  "userRepository_findById (organizerId (test_webinar 345600000 100))
      (users (test_state [] [] [test_webinar 345600000 100])) = None \<and>
   execute FakeMailer 0 ''webinar1'' test_user
      (test_state [] [] [test_webinar 345600000 100]) =
     (Inl EmailNotFoundException,
      test_state [\<lparr>userId = ''user1'', webinarId = ''webinar1''\<rparr>] []
        [test_webinar 345600000 100]) \<and>
   userRepository_findById (organizerId (test_webinar 345600000 100))
      (users (test_state [] [test_organizer None] [test_webinar 345600000 100])) =
     Some (test_organizer None) \<and>
   fst (execute FakeMailer 0 ''webinar1'' test_user
      (test_state [] [test_organizer None] [test_webinar 345600000 100])) =
     Inl EmailNotFoundException"
  using
    C9_absent_organizer [where wid = "''webinar1''"
      and st = "test_state [] [] [test_webinar 345600000 100]"
      and w = "test_webinar 345600000 100" and usr = test_user and now = 0
      and mailer = FakeMailer]
    C9_absent_organizer [where wid = "''webinar1''"
      and st = "test_state [] [test_organizer None] [test_webinar 345600000 100]"
      and w = "test_webinar 345600000 100" and usr = test_user and now = 0
      and mailer = FakeMailer]
  by (simp add: isTooSoon_def hasTooManySeats_def hasNotEnoughSeats_def
      userRepository_findById_def
      test_state_def test_webinar_def test_user_def test_organizer_def)

section \<open>Seats and stored participations\<close>

text \<open>
  C7: \<open>execute\<close> never compares the number of stored participations with the seats of the
  webinar. In every state where the participations stored for the webinar are already as
  many as its seats, a booking by a user not yet registered that passes the checks returns
  the success response and saves one more participation, so that the webinar then has more
  participations than seats.
\<close>

theorem C7_oversell:
  assumes "find (\<lambda>w. webinar_id w = wid) (webinars st) = Some w"
    and "\<not> (\<exists>p\<in>set (participations st). webinarId p = wid \<and> userId p = user_id usr)"
    and "\<not> isTooSoon w now" and "\<not> hasTooManySeats w" and "\<not> hasNotEnoughSeats w"
    and "find (\<lambda>u. user_id u = organizerId w) (users st) = Some org"
    and "email org = Some addr" and "addr \<noteq> []"
    and "int (length (findByWebinarId wid (participations st))) = seats w"
  shows "fst (execute FakeMailer now wid usr st) =
           Inr \<lparr>success = True, message = ''User registered successfully''\<rparr> \<and>
         participations (snd (execute FakeMailer now wid usr st)) =
           participations st @ [\<lparr>userId = user_id usr, webinarId = wid\<rparr>] \<and>
         int (length (findByWebinarId wid
                (participations (snd (execute FakeMailer now wid usr st))))) = seats w + 1"
proof -
  have fake: "FakeMailer (organizer_mail addr w usr) (emails st) =
      (Inr (), emails st @ [organizer_mail addr w usr])"
    by (simp add: FakeMailer_def)
  have run: "execute FakeMailer now wid usr st =
      (Inr \<lparr>success = True, message = ''User registered successfully''\<rparr>,
       st\<lparr>participations := participations st @ [\<lparr>userId = user_id usr, webinarId = wid\<rparr>],
          emails := emails st @ [organizer_mail addr w usr]\<rparr>)"
    by (rule execute_accepted [where mailer = FakeMailer, OF assms(1-8) fake])
  show ?thesis
    using assms(9) by (simp add: run findByWebinarId_def)
qed

theorem C7_oversell_witness:
  "seats (test_webinar 345600000 1) = 1 \<and>
   length (findByWebinarId ''webinar1''
      (participations (test_state [\<lparr>userId = ''user0'', webinarId = ''webinar1''\<rparr>]
         [test_organizer (Some ''organizer@example.com'')] [test_webinar 345600000 1]))) = 1 \<and>
   fst (execute FakeMailer 0 ''webinar1'' test_user
      (test_state [\<lparr>userId = ''user0'', webinarId = ''webinar1''\<rparr>]
         [test_organizer (Some ''organizer@example.com'')] [test_webinar 345600000 1])) =
     Inr \<lparr>success = True, message = ''User registered successfully''\<rparr> \<and>
   participations (snd (execute FakeMailer 0 ''webinar1'' test_user
      (test_state [\<lparr>userId = ''user0'', webinarId = ''webinar1''\<rparr>]
         [test_organizer (Some ''organizer@example.com'')] [test_webinar 345600000 1]))) =
     [\<lparr>userId = ''user0'', webinarId = ''webinar1''\<rparr>,
      \<lparr>userId = ''user1'', webinarId = ''webinar1''\<rparr>]"
  using C7_oversell [where wid = "''webinar1''"
      and st = "test_state [\<lparr>userId = ''user0'', webinarId = ''webinar1''\<rparr>]
         [test_organizer (Some ''organizer@example.com'')] [test_webinar 345600000 1]"
      and w = "test_webinar 345600000 1" and usr = test_user and now = 0
      and org = "test_organizer (Some ''organizer@example.com'')"
      and addr = "''organizer@example.com''"]
  by (simp add: isTooSoon_def hasTooManySeats_def hasNotEnoughSeats_def findByWebinarId_def
      test_state_def test_webinar_def test_user_def test_organizer_def)

section \<open>Lead time\<close>

lemma execute_too_soon_only:
  assumes "find (\<lambda>w. webinar_id w = wid) (webinars st) = Some w"
    and "\<not> isTooSoon w now"
  shows "fst (execute mailer now wid usr st) \<noteq> Inl WebinarDatesTooSoonException"
  using assms
  by (auto simp: execute_def sendEmailToOrganizer_def webinar_lookup_present Let_def
      split: option.splits prod.splits sum.splits)

text \<open>
  C4: for every webinar that resolves, every user not yet registered for it and every
  time \<open>now\<close>, \<open>execute\<close> throws \<open>WebinarDatesTooSoonException\<close> exactly when the start
  date is less than 3 days (3 x 24 x 60 x 60 x 1000 ms) after \<open>now\<close>. At a gap of exactly
  3 days the exception is not thrown, and with seats within bounds the participation is
  saved.
\<close>

theorem C4_lead_time:
  assumes "find (\<lambda>w. webinar_id w = wid) (webinars st) = Some w"
    and "\<not> (\<exists>p\<in>set (participations st). webinarId p = wid \<and> userId p = user_id usr)"
  shows "(fst (execute mailer now wid usr st) = Inl WebinarDatesTooSoonException) =
           (startDate w - now < 3 * 24 * 60 * 60 * 1000) \<and>
         (startDate w - now = 3 * 24 * 60 * 60 * 1000 \<longrightarrow>
            fst (execute mailer now wid usr st) \<noteq> Inl WebinarDatesTooSoonException) \<and>
         (startDate w - now = 3 * 24 * 60 * 60 * 1000 \<and>
            \<not> hasTooManySeats w \<and> \<not> hasNotEnoughSeats w \<longrightarrow>
            participations (snd (execute mailer now wid usr st)) =
              participations st @ [\<lparr>userId = user_id usr, webinarId = wid\<rparr>])"
proof (intro conjI impI)
  show "(fst (execute mailer now wid usr st) = Inl WebinarDatesTooSoonException) =
      (startDate w - now < 3 * 24 * 60 * 60 * 1000)"
  proof (cases "isTooSoon w now")
    case True
    from execute_too_soon [OF assms True] True show ?thesis
      by (simp add: isTooSoon_def)
  next
    case False
    from execute_too_soon_only [OF assms(1) False] False show ?thesis
      by (simp add: isTooSoon_def)
  qed
next
  assume "startDate w - now = 3 * 24 * 60 * 60 * 1000"
  then have "\<not> isTooSoon w now"
    by (simp add: isTooSoon_def)
  then show "fst (execute mailer now wid usr st) \<noteq> Inl WebinarDatesTooSoonException"
    by (rule execute_too_soon_only [OF assms(1)])
next
  assume a: "startDate w - now = 3 * 24 * 60 * 60 * 1000 \<and>
    \<not> hasTooManySeats w \<and> \<not> hasNotEnoughSeats w"
  then have "\<not> isTooSoon w now"
    by (simp add: isTooSoon_def)
  with a show "participations (snd (execute mailer now wid usr st)) =
      participations st @ [\<lparr>userId = user_id usr, webinarId = wid\<rparr>]"
    by (simp add: execute_saves [OF assms])
qed

theorem C4_lead_time_witness:
  "startDate (test_webinar 259200000 100) - 0 = 3 * 24 * 60 * 60 * 1000 \<and>
   execute FakeMailer 0 ''webinar1'' test_user
      (test_state [] [test_organizer (Some ''organizer@example.com'')]
         [test_webinar 259200000 100]) =
     (Inr \<lparr>success = True, message = ''User registered successfully''\<rparr>,
      \<lparr>participations = [\<lparr>userId = ''user1'', webinarId = ''webinar1''\<rparr>],
       users = [test_organizer (Some ''organizer@example.com'')],
       webinars = [test_webinar 259200000 100],
       emails = [\<lparr>to = ''organizer@example.com'', subject = ''New participant'',
                  body = ''New participant for webinar Webinar Test: user@example.com''\<rparr>]\<rparr>) \<and>
   startDate (test_webinar 259199999 100) - 0 = 3 * 24 * 60 * 60 * 1000 - 1 \<and>
   fst (execute FakeMailer 0 ''webinar1'' test_user
      (test_state [] [test_organizer (Some ''organizer@example.com'')]
         [test_webinar 259199999 100])) = Inl WebinarDatesTooSoonException"
proof -
  have run: "execute FakeMailer 0 ''webinar1'' test_user
      (test_state [] [test_organizer (Some ''organizer@example.com'')]
         [test_webinar 259200000 100]) =
     (Inr \<lparr>success = True, message = ''User registered successfully''\<rparr>,
      \<lparr>participations = [\<lparr>userId = ''user1'', webinarId = ''webinar1''\<rparr>],
       users = [test_organizer (Some ''organizer@example.com'')],
       webinars = [test_webinar 259200000 100],
       emails = [\<lparr>to = ''organizer@example.com'', subject = ''New participant'',
                  body = ''New participant for webinar Webinar Test: user@example.com''\<rparr>]\<rparr>)"
    by (simp add: execute_def sendEmailToOrganizer_def webinarRepository_findById_def
        userRepository_findById_def findByWebinarId_def save_def optional_email_def
        truthy_def organizer_mail_def interpolate_def FakeMailer_def
        isTooSoon_def hasTooManySeats_def hasNotEnoughSeats_def
        test_state_def test_webinar_def test_user_def test_organizer_def)
  show ?thesis
    using run
      C4_lead_time [where wid = "''webinar1''"
        and st = "test_state [] [test_organizer (Some ''organizer@example.com'')]
           [test_webinar 259200000 100]"
        and w = "test_webinar 259200000 100" and usr = test_user and now = 0
        and mailer = FakeMailer]
      C4_lead_time [where wid = "''webinar1''"
        and st = "test_state [] [test_organizer (Some ''organizer@example.com'')]
           [test_webinar 259199999 100]"
        and w = "test_webinar 259199999 100" and usr = test_user and now = 0
        and mailer = FakeMailer]
    by (simp add: test_state_def test_webinar_def test_user_def)
qed

section \<open>Bounds on the seats\<close>

text \<open>
  C5: for every webinar that resolves, with the user not yet registered and the start date
  not too soon: with 1001 seats \<open>execute\<close> throws \<open>WebinarTooManySeatsException\<close>, with 0
  seats it throws \<open>WebinarNotEnoughSeatsException\<close>, in both cases saving nothing; with
  1000 seats and with 1 seat the participation is saved and, the organizer resolving with
  a non-empty email, \<open>execute\<close> returns the success response.
\<close>

theorem C5_seat_bounds:
  assumes "find (\<lambda>w. webinar_id w = wid) (webinars st) = Some w"
    and "\<not> (\<exists>p\<in>set (participations st). webinarId p = wid \<and> userId p = user_id usr)"
    and "\<not> isTooSoon w now"
  shows "(seats w = 1001 \<longrightarrow>
            execute mailer now wid usr st = (Inl WebinarTooManySeatsException, st)) \<and>
         (seats w = 0 \<longrightarrow>
            execute mailer now wid usr st = (Inl WebinarNotEnoughSeatsException, st)) \<and>
         (seats w = 1000 \<or> seats w = 1 \<longrightarrow>
            participations (snd (execute mailer now wid usr st)) =
              participations st @ [\<lparr>userId = user_id usr, webinarId = wid\<rparr>] \<and>
            (\<forall>org addr.
               find (\<lambda>u. user_id u = organizerId w) (users st) = Some org \<and>
               email org = Some addr \<and> addr \<noteq> [] \<longrightarrow>
               execute FakeMailer now wid usr st =
                 (Inr \<lparr>success = True, message = ''User registered successfully''\<rparr>,
                  st\<lparr>participations :=
                        participations st @ [\<lparr>userId = user_id usr, webinarId = wid\<rparr>],
                     emails := emails st @ [organizer_mail addr w usr]\<rparr>)))"
proof (intro conjI impI allI)
  assume "seats w = 1001"
  then have "hasTooManySeats w"
    by (simp add: hasTooManySeats_def)
  then show "execute mailer now wid usr st = (Inl WebinarTooManySeatsException, st)"
    by (rule execute_too_many [OF assms])
next
  assume "seats w = 0"
  then have "\<not> hasTooManySeats w" and "hasNotEnoughSeats w"
    by (simp_all add: hasTooManySeats_def hasNotEnoughSeats_def)
  then show "execute mailer now wid usr st = (Inl WebinarNotEnoughSeatsException, st)"
    by (rule execute_not_enough [OF assms])
next
  assume "seats w = 1000 \<or> seats w = 1"
  then have "\<not> hasTooManySeats w" and "\<not> hasNotEnoughSeats w"
    by (auto simp: hasTooManySeats_def hasNotEnoughSeats_def)
  then show "participations (snd (execute mailer now wid usr st)) =
      participations st @ [\<lparr>userId = user_id usr, webinarId = wid\<rparr>]"
    by (rule execute_saves [OF assms])
next
  fix org addr
  assume s: "seats w = 1000 \<or> seats w = 1"
    and o: "find (\<lambda>u. user_id u = organizerId w) (users st) = Some org \<and>
      email org = Some addr \<and> addr \<noteq> []"
  from s have b: "\<not> hasTooManySeats w" "\<not> hasNotEnoughSeats w"
    by (auto simp: hasTooManySeats_def hasNotEnoughSeats_def)
  have fake: "FakeMailer (organizer_mail addr w usr) (emails st) =
      (Inr (), emails st @ [organizer_mail addr w usr])"
    by (simp add: FakeMailer_def)
  from o have o1: "find (\<lambda>u. user_id u = organizerId w) (users st) = Some org"
    and o2: "email org = Some addr" and o3: "addr \<noteq> []"
    by simp_all
  show "execute FakeMailer now wid usr st =
      (Inr \<lparr>success = True, message = ''User registered successfully''\<rparr>,
       st\<lparr>participations := participations st @ [\<lparr>userId = user_id usr, webinarId = wid\<rparr>],
          emails := emails st @ [organizer_mail addr w usr]\<rparr>)"
    by (rule execute_accepted [where mailer = FakeMailer, OF assms b o1 o2 o3 fake])
qed

theorem C5_seat_bounds_witness:
  "execute FakeMailer 0 ''webinar1'' test_user
      (test_state [] [test_organizer (Some ''organizer@example.com'')]
         [test_webinar 345600000 1001]) =
     (Inl WebinarTooManySeatsException,
      test_state [] [test_organizer (Some ''organizer@example.com'')]
         [test_webinar 345600000 1001]) \<and>
   execute FakeMailer 0 ''webinar1'' test_user
      (test_state [] [test_organizer (Some ''organizer@example.com'')]
         [test_webinar 345600000 0]) =
     (Inl WebinarNotEnoughSeatsException,
      test_state [] [test_organizer (Some ''organizer@example.com'')]
         [test_webinar 345600000 0]) \<and>
   fst (execute FakeMailer 0 ''webinar1'' test_user
      (test_state [] [test_organizer (Some ''organizer@example.com'')]
         [test_webinar 345600000 1000])) =
     Inr \<lparr>success = True, message = ''User registered successfully''\<rparr> \<and>
   fst (execute FakeMailer 0 ''webinar1'' test_user
      (test_state [] [test_organizer (Some ''organizer@example.com'')]
         [test_webinar 345600000 1])) =
     Inr \<lparr>success = True, message = ''User registered successfully''\<rparr>"
  using
    C5_seat_bounds [where wid = "''webinar1''"
      and st = "test_state [] [test_organizer (Some ''organizer@example.com'')]
         [test_webinar 345600000 1001]"
      and w = "test_webinar 345600000 1001" and usr = test_user and now = 0
      and mailer = FakeMailer]
    C5_seat_bounds [where wid = "''webinar1''"
      and st = "test_state [] [test_organizer (Some ''organizer@example.com'')]
         [test_webinar 345600000 0]"
      and w = "test_webinar 345600000 0" and usr = test_user and now = 0
      and mailer = FakeMailer]
    C5_seat_bounds [where wid = "''webinar1''"
      and st = "test_state [] [test_organizer (Some ''organizer@example.com'')]
         [test_webinar 345600000 1000]"
      and w = "test_webinar 345600000 1000" and usr = test_user and now = 0
      and mailer = FakeMailer]
    C5_seat_bounds [where wid = "''webinar1''"
      and st = "test_state [] [test_organizer (Some ''organizer@example.com'')]
         [test_webinar 345600000 1]"
      and w = "test_webinar 345600000 1" and usr = test_user and now = 0
      and mailer = FakeMailer]
  by (simp add: isTooSoon_def test_state_def test_webinar_def test_user_def
      test_organizer_def)

end
